theory Spec2Isabelle
  imports Main "HOL-Library.Word" "HOL-Library.List_Lexorder" "HOL-Library.Multiset"
begin

section \<open>The Ethereum JSON-RPC facade of smartBCH: the eth namespace of rpc/api\<close>

text \<open>
  The facade (\<^verbatim>\<open>ethAPI\<close>) answers the \<^verbatim>\<open>eth_*\<close> methods by calling a backend
  service. The model follows the Go source function by function:
  \<^item> a Go result \<^verbatim>\<open>(value, error)\<close> is a sum \<open>error + value\<close> (\<open>Inl\<close> the error); a
    pointer or map result that may be \<^verbatim>\<open>nil\<close> is an \<open>option\<close> inside it, so
    \<^verbatim>\<open>return nil, nil\<close> is \<open>Inr None\<close>;
  \<^item> the backend is a record of response functions, and every operation returns, next to
    its result, the list of backend calls it made, in order;
  \<^item> functions of other packages (go-ethereum, moeingevm, ethutils) and functions of this
    package that live in other files are parameters of the operations that call them.
\<close>

subsection \<open>Data\<close>

type_synonym byte = "8 word"
type_synonym bytes = "byte list"

text \<open>\<^verbatim>\<open>common.Address\<close> is \<^verbatim>\<open>[20]byte\<close> and \<^verbatim>\<open>common.Hash\<close> is \<^verbatim>\<open>[32]byte\<close>.\<close>

type_synonym address = "byte list"
type_synonym hash = "byte list"

definition AddressLength :: nat where
  "AddressLength = 20"

text \<open>\<^verbatim>\<open>common.Address{}\<close>, the zero value of the array type.\<close>

definition zero_address :: address where
  "zero_address = replicate AddressLength 0"

definition DefaultGasPrice :: int where
  "DefaultGasPrice = 20000000000"

definition DefaultRPCGasLimit :: "64 word" where
  "DefaultRPCGasLimit = 10000000"

text \<open>
  \<^verbatim>\<open>gethrpc.BlockNumber\<close> is an \<^verbatim>\<open>int64\<close>; the symbolic markers are the constants of
  go-ethereum's rpc package.
\<close>

type_synonym BlockNumber = "64 word"

definition PendingBlockNumber :: BlockNumber where
  "PendingBlockNumber = - 2"

definition LatestBlockNumber :: BlockNumber where
  "LatestBlockNumber = - 1"

definition EarliestBlockNumber :: BlockNumber where
  "EarliestBlockNumber = 0"

text \<open>
  Go errors. The two sentinels of moeingevm's \<^verbatim>\<open>types\<close> package are compared by identity
  in the source (\<^verbatim>\<open>err == types.ErrAccNotFound\<close>); every other error is a message.
\<close>

datatype error = ErrAccNotFound | ErrBlockNotFound | ErrorString string

text \<open>
  \<^verbatim>\<open>gethtypes.Transaction\<close> as \<^verbatim>\<open>gethtypes.NewTransaction\<close> fills it: a legacy
  transaction whose signature values start at zero.
\<close>

record geth_tx =
  tx_nonce :: "64 word"
  tx_to :: address
  tx_value :: int
  tx_gas :: "64 word"
  tx_gasPrice :: int
  tx_data :: bytes
  tx_v :: int
  tx_r :: int
  tx_s :: int

definition NewTransaction ::
  "64 word \<Rightarrow> address \<Rightarrow> int \<Rightarrow> 64 word \<Rightarrow> int \<Rightarrow> bytes \<Rightarrow> geth_tx" where
  "NewTransaction nonce to amount gasLimit gasPrice data =
     \<lparr>tx_nonce = nonce, tx_to = to, tx_value = amount, tx_gas = gasLimit,
      tx_gasPrice = gasPrice, tx_data = data, tx_v = 0, tx_r = 0, tx_s = 0\<rparr>"

text \<open>\<^verbatim>\<open>rpctypes.CallArgs\<close>: every field is a pointer, \<open>None\<close> when absent.\<close>

record CallArgs =
  ca_From :: "address option"
  ca_To :: "address option"
  ca_Gas :: "64 word option"
  ca_GasPrice :: "int option"
  ca_Value :: "int option"
  ca_Data :: "bytes option"

text \<open>\<^verbatim>\<open>rpctypes.SendTxArgs\<close>: the sender is a value, the rest are pointers.\<close>

record SendTxArgs =
  sa_From :: address
  sa_To :: "address option"
  sa_Gas :: "64 word option"
  sa_GasPrice :: "int option"
  sa_Value :: "int option"
  sa_Nonce :: "64 word option"
  sa_Data :: "bytes option"
  sa_Input :: "bytes option"

text \<open>
  \<^verbatim>\<open>types.Block\<close> of moeingevm: the facade reads \<^verbatim>\<open>Number\<close> (an \<^verbatim>\<open>int64\<close>) and
  \<^verbatim>\<open>Transactions\<close> (the transaction hashes, in order).
\<close>

record Block =
  Number :: "64 word"
  Transactions :: "hash list"

subsection \<open>The backend\<close>

text \<open>
  \<^verbatim>\<open>sbchapi.BackendService\<close>, the methods the facade calls. \<open>'tx\<close> is the stored
  transaction type of moeingevm. \<^verbatim>\<open>GetCode\<close> keeps Go's pair, because the facade reads
  the value whatever the error is; \<^verbatim>\<open>GetTransaction\<close> returns five values of which the
  facade keeps the first and the last. \<^verbatim>\<open>LatestHeight\<close>, \<^verbatim>\<open>ChainId\<close>,
  \<^verbatim>\<open>ProtocolVersion\<close>, \<^verbatim>\<open>GetStorageAt\<close>, \<^verbatim>\<open>Call\<close> and \<^verbatim>\<open>EstimateGas\<close> return no
  error. The key of \<^verbatim>\<open>GetStorageAt\<close> is a Go string holding raw bytes.
\<close>

record 'tx BackendService =
  backend_LatestHeight :: "64 word"
  backend_ChainId :: int
  backend_ProtocolVersion :: "64 word"
  backend_GetStorageAt :: "address \<Rightarrow> bytes \<Rightarrow> 64 word \<Rightarrow> bytes"
  backend_GetBalance :: "address \<Rightarrow> 64 word \<Rightarrow> error + int"
  backend_GetCode :: "address \<Rightarrow> 64 word \<Rightarrow> bytes \<times> error option"
  backend_BlockByHash :: "hash \<Rightarrow> error + Block"
  backend_BlockByNumber :: "64 word \<Rightarrow> error + Block"
  backend_CurrentBlock :: "error + Block"
  backend_GetTxListByHeight :: "32 word \<Rightarrow> error + 'tx list"
  backend_GetTransaction :: "hash \<Rightarrow> error + 'tx"
  backend_GetNonce :: "address \<Rightarrow> error + 64 word"
  backend_SendRawTx :: "bytes \<Rightarrow> error + hash"
  backend_Call :: "geth_tx \<Rightarrow> address \<Rightarrow> int \<times> bytes"
  backend_EstimateGas :: "geth_tx \<Rightarrow> address \<Rightarrow> int \<times> bytes \<times> 64 word"

text \<open>One entry per call made on the backend, with the arguments passed.\<close>

datatype backend_call =
    LatestHeightCall
  | ChainIdCall
  | ProtocolVersionCall
  | GetStorageAtCall address bytes "64 word"
  | GetBalanceCall address "64 word"
  | GetCodeCall address "64 word"
  | BlockByHashCall hash
  | BlockByNumberCall "64 word"
  | CurrentBlockCall
  | GetTxListByHeightCall "32 word"
  | GetTransactionCall hash
  | GetNonceCall address
  | SendRawTxCall bytes
  | CallCall geth_tx address
  | EstimateGasCall geth_tx address

text \<open>
  \<^verbatim>\<open>ethAPI\<close>: the backend and the signer registry (\<open>'k\<close> is \<^verbatim>\<open>*ecdsa.PrivateKey\<close>).
  The logger has no part in any result.
\<close>

record ('k, 'tx) ethAPI =
  backend :: "'tx BackendService"
  accounts :: "address \<rightharpoonup> 'k"

subsection \<open>Gas price and balance\<close>

text \<open>\<^verbatim>\<open>GasPrice\<close> returns \<^verbatim>\<open>big.NewInt(0)\<close>.\<close>

definition GasPrice :: "('k, 'tx) ethAPI \<Rightarrow> int" where
  "GasPrice api = 0"

definition GetBalance ::
  "('k, 'tx) ethAPI \<Rightarrow> address \<Rightarrow> BlockNumber \<Rightarrow> (error + int) \<times> backend_call list" where
  "GetBalance api addr blockNum =
     (case backend_GetBalance (backend api) addr LatestBlockNumber of
        Inl err \<Rightarrow>
          if err = ErrAccNotFound then (Inr 0, [GetBalanceCall addr LatestBlockNumber])
          else (Inl err, [GetBalanceCall addr LatestBlockNumber])
      | Inr b \<Rightarrow> (Inr b, [GetBalanceCall addr LatestBlockNumber]))"

subsection \<open>The call builder\<close>

definition createGethTxFromCallArgs :: "CallArgs \<Rightarrow> error + (geth_tx \<times> address)" where
  "createGethTxFromCallArgs args =
     (let from = (case ca_From args of Some a \<Rightarrow> a | None \<Rightarrow> zero_address);
          to = (case ca_To args of Some a \<Rightarrow> a | None \<Rightarrow> zero_address);
          val = (case ca_Value args of Some v \<Rightarrow> v | None \<Rightarrow> 0);
          gasLimit = (case ca_Gas args of Some g \<Rightarrow> g | None \<Rightarrow> DefaultRPCGasLimit);
          gasPrice = (case ca_GasPrice args of Some p \<Rightarrow> p | None \<Rightarrow> DefaultGasPrice);
          data = (case ca_Data args of Some d \<Rightarrow> d | None \<Rightarrow> [])
      in Inr (NewTransaction 0 to val gasLimit gasPrice data, from))"

subsection \<open>Operations with no failing step\<close>

text \<open>
  \<^verbatim>\<open>BlockNumber\<close> converts the \<^verbatim>\<open>int64\<close> height to \<^verbatim>\<open>hexutil.Uint64\<close>, which keeps its
  bits. \<^verbatim>\<open>ChainId\<close> takes \<^verbatim>\<open>Uint64()\<close> of a \<^verbatim>\<open>big.Int\<close>: the low 64 bits of its
  magnitude. \<^verbatim>\<open>ChainId\<close>, \<^verbatim>\<open>ProtocolVersion\<close> and the uncle operations have no error
  in their Go result.
\<close>

definition BlockNumber :: "('k, 'tx) ethAPI \<Rightarrow> (error + 64 word) \<times> backend_call list" where
  "BlockNumber api = (Inr (backend_LatestHeight (backend api)), [LatestHeightCall])"

definition ChainId :: "('k, 'tx) ethAPI \<Rightarrow> 64 word \<times> backend_call list" where
  "ChainId api =
     (let chainID = backend_ChainId (backend api)
      in (of_nat (nat \<bar>chainID\<bar>), [ChainIdCall]))"


definition ProtocolVersion :: "('k, 'tx) ethAPI \<Rightarrow> 64 word \<times> backend_call list" where
  "ProtocolVersion api = (backend_ProtocolVersion (backend api), [ProtocolVersionCall])"


text \<open>The uncle operations: a \<^verbatim>\<open>nil\<close> map is \<open>None\<close>.\<close>

definition GetUncleByBlockHashAndIndex ::
  "('k, 'tx) ethAPI \<Rightarrow> hash \<Rightarrow> 64 word \<Rightarrow> 'resp option" where
  "GetUncleByBlockHashAndIndex api h idx = None"

definition GetUncleByBlockNumberAndIndex ::
  "('k, 'tx) ethAPI \<Rightarrow> 64 word \<Rightarrow> 64 word \<Rightarrow> 'resp option" where
  "GetUncleByBlockNumberAndIndex api number idx = None"

definition GetUncleCountByBlockHash :: "('k, 'tx) ethAPI \<Rightarrow> hash \<Rightarrow> 64 word" where
  "GetUncleCountByBlockHash api h = 0"

definition GetUncleCountByBlockNumber :: "('k, 'tx) ethAPI \<Rightarrow> BlockNumber \<Rightarrow> 64 word" where
  "GetUncleCountByBlockNumber api blockNum = 0"




subsection \<open>The signer registry and account listing\<close>

text \<open>
  \<^verbatim>\<open>loadTestAccounts\<close>: \<open>HexToPrivKey\<close> is \<^verbatim>\<open>ethutils.HexToPrivKey\<close> (its second
  result is dropped by the source) and \<open>PubkeyToAddress\<close> is \<^verbatim>\<open>crypto.PubkeyToAddress\<close>
  applied to the key's public part. The second component collects what the logger is
  given for every key that does not parse.
\<close>

definition loadTestAccounts ::
  "(string \<Rightarrow> error + 'k) \<Rightarrow> ('k \<Rightarrow> address) \<Rightarrow> string list
     \<Rightarrow> (address \<rightharpoonup> 'k) \<times> (string \<times> error) list" where
  "loadTestAccounts HexToPrivKey PubkeyToAddress testKeys =
     foldl (\<lambda>(accs, logged) testKey.
              case HexToPrivKey testKey of
                Inr key \<Rightarrow> (accs(PubkeyToAddress key \<mapsto> key), logged)
              | Inl err \<Rightarrow> (accs, logged @ [(testKey, err)]))
           (Map.empty, []) testKeys"

definition newEthAPI ::
  "(string \<Rightarrow> error + 'k) \<Rightarrow> ('k \<Rightarrow> address) \<Rightarrow> 'tx BackendService \<Rightarrow> string list
     \<Rightarrow> ('k, 'tx) ethAPI" where
  "newEthAPI HexToPrivKey PubkeyToAddress b testKeys =
     \<lparr>backend = b, accounts = fst (loadTestAccounts HexToPrivKey PubkeyToAddress testKeys)\<rparr>"

text \<open>
  The comparison passed to \<^verbatim>\<open>sort.Slice\<close> in \<^verbatim>\<open>Accounts\<close>: the loop over
  \<^verbatim>\<open>k = 0 .. AddressLength - 1\<close>, started at \<open>k\<close>. An address is a 20-byte array, so
  every index the loop reads is in range.
\<close>

function less_from :: "address \<Rightarrow> address \<Rightarrow> nat \<Rightarrow> bool" where
  "less_from a b k =
     (if k < AddressLength then
        (if a ! k < b ! k then True
         else if a ! k > b ! k then False
         else less_from a b (k + 1))
      else False)"
  by pat_completeness auto
termination
  by (relation "measure (\<lambda>(a, b, k). AddressLength - k)") auto

definition addr_less :: "address \<Rightarrow> address \<Rightarrow> bool" where
  "addr_less a b = less_from a b 0"

text \<open>
  \<^verbatim>\<open>sort.Slice\<close> is Go's standard library: it rearranges the slice into an order sorted
  under the comparison it is given. It is written here as insertion sort, which is
  what the library runs on short slices.
\<close>

fun insert_by :: "('a \<Rightarrow> 'a \<Rightarrow> bool) \<Rightarrow> 'a \<Rightarrow> 'a list \<Rightarrow> 'a list" where
  "insert_by lt x [] = [x]"
| "insert_by lt x (y # ys) =
     (if lt x y then x # y # ys else y # insert_by lt x ys)"

definition sort_Slice :: "('a \<Rightarrow> 'a \<Rightarrow> bool) \<Rightarrow> 'a list \<Rightarrow> 'a list" where
  "sort_Slice lt xs = foldr (insert_by lt) xs []"

text \<open>
  Go iterates over a map in an order of its own choosing: \<open>iter\<close> is the order in which
  \<^verbatim>\<open>range api.accounts\<close> yields the keys, any enumeration of the keys without
  repetition.
\<close>

definition range_order :: "('a \<rightharpoonup> 'k) \<Rightarrow> 'a list \<Rightarrow> bool" where
  "range_order m iter \<longleftrightarrow> distinct iter \<and> set iter = dom m"

definition Accounts :: "('k, 'tx) ethAPI \<Rightarrow> address list \<Rightarrow> error + address list" where
  "Accounts api iter =
     (let addrs = foldl (\<lambda>addrs addr. addrs @ [addr]) [] iter
      in Inr (sort_Slice addr_less addrs))"

subsection \<open>Code, blocks and transactions\<close>


definition getBlockByNum ::
  "('k, 'tx) ethAPI \<Rightarrow> BlockNumber \<Rightarrow> (error + Block) \<times> backend_call list" where
  "getBlockByNum api blockNum =
     (let height = blockNum in
      if sint height \<le> 0 then (backend_CurrentBlock (backend api), [CurrentBlockCall])
      else (backend_BlockByNumber (backend api) height, [BlockByNumberCall height]))"


definition GetBlockByNumber ::
  "(Block \<Rightarrow> 'tx list option \<Rightarrow> 'resp) \<Rightarrow> ('k, 'tx) ethAPI \<Rightarrow> BlockNumber \<Rightarrow> bool
     \<Rightarrow> (error + 'resp option) \<times> backend_call list" where
  "GetBlockByNumber blockToRpcResp api blockNum fullTx =
     (case getBlockByNum api blockNum of
        (Inl err, calls) \<Rightarrow>
          if err = ErrBlockNotFound then (Inr None, calls) else (Inl err, calls)
      | (Inr block, calls) \<Rightarrow>
          if fullTx then
            (case backend_GetTxListByHeight (backend api) (ucast (Number block)) of
               Inl err \<Rightarrow>
                 (Inl err, calls @ [GetTxListByHeightCall (ucast (Number block))])
             | Inr txs \<Rightarrow>
                 (Inr (Some (blockToRpcResp block (Some txs))),
                  calls @ [GetTxListByHeightCall (ucast (Number block))]))
          else (Inr (Some (blockToRpcResp block None)), calls))"



text \<open>
  \<^verbatim>\<open>hexutil.Uint\<close> is Go's \<^verbatim>\<open>uint\<close>, 64 bits wide here; the length of a slice is
  a non-negative \<^verbatim>\<open>int\<close>, so the comparison of the two \<^verbatim>\<open>uint64\<close> values is the
  comparison of the index with the length. \<open>txToRpcResp\<close> is defined in another file of
  the package.
\<close>

definition getTxByIdx ::
  "('tx \<Rightarrow> 'r) \<Rightarrow> ('k, 'tx) ethAPI \<Rightarrow> Block \<Rightarrow> 64 word
     \<Rightarrow> (error + 'r option) \<times> backend_call list" where
  "getTxByIdx txToRpcResp api block idx =
     (if unat idx \<ge> length (Transactions block) then (Inr None, [])
      else
        (let txHash = Transactions block ! unat idx in
         case backend_GetTransaction (backend api) txHash of
           Inl err \<Rightarrow> (Inl err, [GetTransactionCall txHash])
         | Inr tx \<Rightarrow> (Inr (Some (txToRpcResp tx)), [GetTransactionCall txHash])))"

definition GetTransactionByBlockHashAndIndex ::
  "('tx \<Rightarrow> 'r) \<Rightarrow> ('k, 'tx) ethAPI \<Rightarrow> hash \<Rightarrow> 64 word
     \<Rightarrow> (error + 'r option) \<times> backend_call list" where
  "GetTransactionByBlockHashAndIndex txToRpcResp api h idx =
     (case backend_BlockByHash (backend api) h of
        Inl err \<Rightarrow> (Inl err, [BlockByHashCall h])
      | Inr block \<Rightarrow>
          (case getTxByIdx txToRpcResp api block idx of
             (res, calls) \<Rightarrow> (res, BlockByHashCall h # calls)))"

definition GetTransactionByBlockNumberAndIndex ::
  "('tx \<Rightarrow> 'r) \<Rightarrow> ('k, 'tx) ethAPI \<Rightarrow> BlockNumber \<Rightarrow> 64 word
     \<Rightarrow> (error + 'r option) \<times> backend_call list" where
  "GetTransactionByBlockNumberAndIndex txToRpcResp api blockNum idx =
     (case getBlockByNum api blockNum of
        (Inl err, calls) \<Rightarrow> (Inl err, calls)
      | (Inr block, calls) \<Rightarrow>
          (case getTxByIdx txToRpcResp api block idx of
             (res, calls') \<Rightarrow> (res, calls @ calls')))"

definition GetTransactionByHash ::
  "('tx \<Rightarrow> 'r) \<Rightarrow> ('k, 'tx) ethAPI \<Rightarrow> hash \<Rightarrow> (error + 'r option) \<times> backend_call list" where
  "GetTransactionByHash txToRpcResp api h =
     (case backend_GetTransaction (backend api) h of
        Inl err \<Rightarrow> (Inr None, [GetTransactionCall h])
      | Inr tx \<Rightarrow> (Inr (Some (txToRpcResp tx)), [GetTransactionCall h]))"


text \<open>\<open>txToReceiptRpcResp\<close> is defined in another file of the package.\<close>

definition GetTransactionReceipt ::
  "('tx \<Rightarrow> 'rc) \<Rightarrow> ('k, 'tx) ethAPI \<Rightarrow> hash \<Rightarrow> (error + 'rc option) \<times> backend_call list" where
  "GetTransactionReceipt txToReceiptRpcResp api h =
     (case backend_GetTransaction (backend api) h of
        Inl err \<Rightarrow> (Inr None, [GetTransactionCall h])
      | Inr tx \<Rightarrow> (Inr (Some (txToReceiptRpcResp tx)), [GetTransactionCall h]))"

subsection \<open>Submitting transactions\<close>


text \<open>
  \<open>Hex\<close> is the \<^verbatim>\<open>Hex\<close> method of \<^verbatim>\<open>common.Address\<close>, \<open>createGethTxFromSendTxArgs\<close>
  is defined in another file of the package, \<open>SignTx\<close> and \<open>EncodeTx\<close> are those of
  \<^verbatim>\<open>ethutils\<close>. An absent nonce is filled from the backend when the backend answers
  and stays absent when the backend fails.
\<close>

definition SendTransaction ::
  "(address \<Rightarrow> string) \<Rightarrow> (SendTxArgs \<Rightarrow> error + geth_tx)
     \<Rightarrow> (geth_tx \<Rightarrow> int \<Rightarrow> 'k \<Rightarrow> error + geth_tx) \<Rightarrow> (geth_tx \<Rightarrow> error + bytes)
     \<Rightarrow> (geth_tx \<Rightarrow> hash) \<Rightarrow> ('k, 'tx) ethAPI \<Rightarrow> SendTxArgs
     \<Rightarrow> (error + hash) \<times> backend_call list" where
  "SendTransaction Hex createGethTxFromSendTxArgs SignTx EncodeTx TxHash api args =
     (case accounts api (sa_From args) of
        None \<Rightarrow> (Inl (ErrorString (''unknown account: '' @ Hex (sa_From args))), [])
      | Some privKey \<Rightarrow>
          (case (if sa_Nonce args = None then
                   (case backend_GetNonce (backend api) (sa_From args) of
                      Inr nonce \<Rightarrow>
                        (args\<lparr>sa_Nonce := Some nonce\<rparr>, [GetNonceCall (sa_From args)])
                    | Inl err \<Rightarrow> (args, [GetNonceCall (sa_From args)]))
                 else (args, [])) of
             (args', calls) \<Rightarrow>
               (case createGethTxFromSendTxArgs args' of
                  Inl err \<Rightarrow> (Inl err, calls)
                | Inr tx \<Rightarrow>
                    (let chainID = backend_ChainId (backend api) in
                     case SignTx tx chainID privKey of
                       Inl err \<Rightarrow> (Inl err, calls @ [ChainIdCall])
                     | Inr signedTx \<Rightarrow>
                         (case EncodeTx signedTx of
                            Inl err \<Rightarrow> (Inl err, calls @ [ChainIdCall])
                          | Inr txBytes \<Rightarrow>
                              (case backend_SendRawTx (backend api) txBytes of
                                 Inl err \<Rightarrow>
                                   (Inl err, calls @ [ChainIdCall, SendRawTxCall txBytes])
                               | Inr tmTxHash \<Rightarrow>
                                   (Inr (TxHash signedTx),
                                    calls @ [ChainIdCall, SendRawTxCall txBytes])))))))"

subsection \<open>Read-only execution\<close>

text \<open>
  \<open>StatusIsFailure\<close> is \<^verbatim>\<open>ebp.StatusIsFailure\<close> of moeingevm; \<open>toCallErr\<close> is defined
  in another file of the package. The gas amount is converted to \<^verbatim>\<open>hexutil.Uint64\<close>,
  which keeps its 64 bits.
\<close>

definition Call ::
  "(int \<Rightarrow> bool) \<Rightarrow> (int \<Rightarrow> bytes \<Rightarrow> error) \<Rightarrow> ('k, 'tx) ethAPI \<Rightarrow> CallArgs \<Rightarrow> BlockNumber
     \<Rightarrow> (error + bytes) \<times> backend_call list" where
  "Call StatusIsFailure toCallErr api args blockNr =
     (case createGethTxFromCallArgs args of
        Inl err \<Rightarrow> (Inl err, [])
      | Inr (tx, from) \<Rightarrow>
          (case backend_Call (backend api) tx from of
             (statusCode, retData) \<Rightarrow>
               if \<not> StatusIsFailure statusCode then (Inr retData, [CallCall tx from])
               else (Inl (toCallErr statusCode retData), [CallCall tx from])))"

definition EstimateGas ::
  "(int \<Rightarrow> bool) \<Rightarrow> (int \<Rightarrow> bytes \<Rightarrow> error) \<Rightarrow> ('k, 'tx) ethAPI \<Rightarrow> CallArgs
     \<Rightarrow> (error + 64 word) \<times> backend_call list" where
  "EstimateGas StatusIsFailure toCallErr api args =
     (case createGethTxFromCallArgs args of
        Inl err \<Rightarrow> (Inl err, [])
      | Inr (tx, from) \<Rightarrow>
          (case backend_EstimateGas (backend api) tx from of
             (statusCode, retData, gas) \<Rightarrow>
               if \<not> StatusIsFailure statusCode then (Inr gas, [EstimateGasCall tx from])
               else (Inl (toCallErr statusCode retData), [EstimateGasCall tx from])))"

subsection \<open>Sample values\<close>

text \<open>
  A backend that knows one account, two blocks and one stored transaction, and fails
  every other lookup; stored transactions are numbers, keys are numbers. Used to run the
  operations on concrete inputs.
\<close>

definition acct1 :: address where
  "acct1 = replicate 19 0 @ [1]"

definition acct2 :: address where
  "acct2 = 1 # replicate 19 0"

definition hashA :: hash where
  "hashA = replicate 32 10"

definition hashB :: hash where
  "hashB = replicate 32 11"

definition hashC :: hash where
  "hashC = replicate 32 12"


definition block7 :: Block where
  "block7 = \<lparr>Number = 7, Transactions = [hashA, hashB]\<rparr>"

definition block8 :: Block where
  "block8 = \<lparr>Number = 8, Transactions = [hashB]\<rparr>"

definition sample_backend :: "nat BackendService" where
  "sample_backend =
     \<lparr>backend_LatestHeight = 8,
      backend_ChainId = 10000,
      backend_ProtocolVersion = 63,
      backend_GetStorageAt = (\<lambda>a k h. []),
      backend_GetBalance = (\<lambda>a h. if a = acct1 then Inr 5
                                  else if a = acct2 then Inl ErrAccNotFound
                                  else Inl (ErrorString ''store closed'')),
      backend_GetCode = (\<lambda>a h. if a = acct1 then ([96, 128], None)
                               else ([], Some (ErrorString ''store closed''))),
      backend_BlockByHash = (\<lambda>h. if h = hashA then Inr block7
                                  else if h = hashB then Inr block8
                                  else if h = hashC then Inl (ErrorString ''store closed'')
                                  else Inl ErrBlockNotFound),
      backend_BlockByNumber = (\<lambda>n. if n = 7 then Inr block7
                                    else if n = 8 then Inr block8
                                    else if n = 9 then Inl (ErrorString ''store closed'')
                                    else Inl ErrBlockNotFound),
      backend_CurrentBlock = Inr block7,
      backend_GetTxListByHeight = (\<lambda>n. if n = 7 then Inr [41, 42]
                                        else Inl (ErrorString ''no such height'')),
      backend_GetTransaction = (\<lambda>h. if h = hashA then Inr 41
                                     else Inl (ErrorString ''store closed'')),
      backend_GetNonce = (\<lambda>a. if a = acct2 then Inr 3 else Inl ErrAccNotFound),
      backend_SendRawTx = (\<lambda>bs. if 9 \<in> set bs then Inl (ErrorString ''nonce too high'')
                                else Inr hashB),
      backend_Call = (\<lambda>tx a. if tx_data tx = [] then (0, [1, 2]) else (2, [8])),
      backend_EstimateGas = (\<lambda>tx a. if tx_data tx = [] then (0, [], 21000) else (2, [8], 0))\<rparr>"

definition sample_api :: "(nat, nat) ethAPI" where
  "sample_api = \<lparr>backend = sample_backend, accounts = [acct1 \<mapsto> 11, acct2 \<mapsto> 22]\<rparr>"

definition no_CallArgs :: CallArgs where
  "no_CallArgs = \<lparr>ca_From = None, ca_To = None, ca_Gas = None, ca_GasPrice = None,
                  ca_Value = None, ca_Data = None\<rparr>"

definition data_CallArgs :: CallArgs where
  "data_CallArgs = no_CallArgs\<lparr>ca_Data := Some [1]\<rparr>"

definition sample_SendTxArgs :: "address \<Rightarrow> SendTxArgs" where
  "sample_SendTxArgs a = \<lparr>sa_From = a, sa_To = None, sa_Gas = None, sa_GasPrice = None,
                          sa_Value = None, sa_Nonce = None, sa_Data = None, sa_Input = None\<rparr>"



text \<open>Stand-ins for the functions taken as parameters, for the sample runs only.\<close>

definition sample_StatusIsFailure :: "int \<Rightarrow> bool" where
  "sample_StatusIsFailure c \<longleftrightarrow> c \<noteq> 0"

definition sample_toCallErr :: "int \<Rightarrow> bytes \<Rightarrow> error" where
  "sample_toCallErr c d = ErrorString (if c = 2 then ''revert'' else ''failure'')"

definition sample_build :: "SendTxArgs \<Rightarrow> error + geth_tx" where
  "sample_build a =
     (if sa_Data a \<noteq> None \<and> sa_Input a \<noteq> None \<and> sa_Data a \<noteq> sa_Input a
      then Inl (ErrorString ''data and input differ'')
      else Inr (NewTransaction (case sa_Nonce a of Some n \<Rightarrow> n | None \<Rightarrow> 0) zero_address 0
                  DefaultRPCGasLimit DefaultGasPrice []))"


definition sample_sign :: "geth_tx \<Rightarrow> int \<Rightarrow> nat \<Rightarrow> error + geth_tx" where
  "sample_sign tx chainID key =
     (if tx_nonce tx = 5 then Inl (ErrorString ''cannot sign'')
      else Inr (tx\<lparr>tx_v := chainID, tx_r := int key, tx_s := 1\<rparr>))"

definition sample_encode :: "geth_tx \<Rightarrow> error + bytes" where
  "sample_encode tx =
     (if tx_nonce tx = 6 then Inl (ErrorString ''cannot encode'')
      else Inr [of_int (tx_r tx), ucast (tx_nonce tx)])"





definition sample_hash :: "geth_tx \<Rightarrow> hash" where
  "sample_hash tx = replicate 32 (of_int (tx_r tx))"


definition sample_Hex :: "address \<Rightarrow> string" where
  "sample_Hex a = ''0x'' @ concat (map (\<lambda>b. if b = 0 then ''00'' else ''01'') a)"

section \<open>Properties\<close>

subsection \<open>Facts about the sample values\<close>

lemma acct_distinct:
  "acct1 \<noteq> acct2" "acct1 \<noteq> zero_address" "acct2 \<noteq> zero_address"
  "acct2 \<noteq> acct1" "zero_address \<noteq> acct1" "zero_address \<noteq> acct2"
  by (simp_all add: acct1_def acct2_def zero_address_def AddressLength_def eval_nat_numeral)

lemma hash_distinct: "hashA \<noteq> hashB" "hashB \<noteq> hashA"
  by (simp_all add: hashA_def hashB_def eval_nat_numeral)


lemma acct_length: "length acct1 = AddressLength" "length acct2 = AddressLength"
  by (simp_all add: acct1_def acct2_def AddressLength_def)

subsection \<open>The address comparison is the lexicographic order\<close>

declare less_from.simps [simp del]

text \<open>
  The order \<open><\<close> on lists is the lexicographic one: of two lists of the same length, the
  smaller is the one with the smaller element at the first index where they differ.
\<close>

lemma list_less_first_difference:
  fixes a b :: "('a::linorder) list"
  assumes "length a = length b"
  shows "a < b \<longleftrightarrow> (\<exists>i<length a. take i a = take i b \<and> a ! i < b ! i)"
  using assms
proof (induction a b rule: list_induct2)
  case Nil
  then show ?case by simp
next
  case (Cons x xs y ys)
  have "(\<exists>i<Suc (length xs). take i (x # xs) = take i (y # ys) \<and> (x # xs) ! i < (y # ys) ! i)
      \<longleftrightarrow> x < y \<or> (\<exists>j<length xs. x = y \<and> take j xs = take j ys \<and> xs ! j < ys ! j)"
    by (simp add: Ex_less_Suc2)
  then show ?case using Cons.IH by auto
qed

lemma less_from_drop:
  "length a = AddressLength \<Longrightarrow> length b = AddressLength \<Longrightarrow> k \<le> AddressLength
     \<Longrightarrow> less_from a b k = (drop k a < drop k b)"
proof (induction a b k rule: less_from.induct)
  case (1 a b k)
  show ?case
  proof (cases "k < AddressLength")
    case True
    have da: "drop k a = a ! k # drop (Suc k) a"
      using True "1.prems"(1) by (simp add: Cons_nth_drop_Suc)
    have db: "drop k b = b ! k # drop (Suc k) b"
      using True "1.prems"(2) by (simp add: Cons_nth_drop_Suc)
    show ?thesis
    proof (cases "a ! k = b ! k")
      case same: True
      have "less_from a b k = less_from a b (k + 1)"
        using True same by (subst less_from.simps) simp
      also have "\<dots> = (drop (k + 1) a < drop (k + 1) b)"
        using "1.IH" True same "1.prems" by simp
      finally show ?thesis using da db same by simp
    next
      case False
      then show ?thesis using True da db
        by (subst less_from.simps) auto
    qed
  next
    case False
    then show ?thesis using "1.prems"
      by (subst less_from.simps) simp
  qed
qed

lemma addr_less_iff:
  "length a = AddressLength \<Longrightarrow> length b = AddressLength \<Longrightarrow> addr_less a b = (a < b)"
  using less_from_drop [of a b 0] by (simp add: addr_less_def)

subsection \<open>Insertion sort under a comparison\<close>

lemma set_insert_by: "set (insert_by lt x ys) = insert x (set ys)"
  by (induction ys) auto

lemma mset_insert_by: "mset (insert_by lt x ys) = add_mset x (mset ys)"
  by (induction ys) auto

lemma insert_by_cong:
  "(\<And>y. y \<in> set ys \<Longrightarrow> lt x y = lt' x y) \<Longrightarrow> insert_by lt x ys = insert_by lt' x ys"
  by (induction ys) auto

lemma set_sort_Slice: "set (sort_Slice lt xs) = set xs"
  by (induction xs) (auto simp: sort_Slice_def set_insert_by)

lemma mset_sort_Slice: "mset (sort_Slice lt xs) = mset xs"
  by (induction xs) (auto simp: sort_Slice_def mset_insert_by)

lemma sort_Slice_cong:
  "(\<And>x y. x \<in> set xs \<Longrightarrow> y \<in> set xs \<Longrightarrow> lt x y = lt' x y)
     \<Longrightarrow> sort_Slice lt xs = sort_Slice lt' xs"
proof (induction xs)
  case Nil
  then show ?case by (simp add: sort_Slice_def)
next
  case (Cons x xs)
  have eq: "sort_Slice lt xs = sort_Slice lt' xs"
    using Cons by simp
  have "insert_by lt x (sort_Slice lt' xs) = insert_by lt' x (sort_Slice lt' xs)"
    by (rule insert_by_cong) (simp add: set_sort_Slice Cons.prems)
  then show ?case using eq by (simp add: sort_Slice_def)
qed

lemma sorted_insert_by:
  fixes x :: "'a::linorder"
  shows "sorted ys \<Longrightarrow> sorted (insert_by (<) x ys)"
  by (induction ys) (auto simp: set_insert_by)

lemma sorted_sort_Slice:
  fixes xs :: "('a::linorder) list"
  shows "sorted (sort_Slice (<) xs)"
  by (induction xs) (auto simp: sort_Slice_def sorted_insert_by)

lemma sort_Slice_eq_sort:
  fixes xs :: "('a::linorder) list"
  shows "sort_Slice (<) xs = sort xs"
  by (rule properties_for_sort [symmetric]) (simp_all add: mset_sort_Slice sorted_sort_Slice)

lemma foldl_snoc: "foldl (\<lambda>addrs addr. addrs @ [addr]) acc xs = acc @ xs"
  by (induction xs arbitrary: acc) auto

lemma Accounts_eq_sort:
  assumes "\<forall>a \<in> set iter. length a = AddressLength"
  shows "Accounts api iter = Inr (sort iter)"
proof -
  have "sort_Slice addr_less iter = sort_Slice (<) iter"
    by (rule sort_Slice_cong) (simp add: addr_less_iff assms)
  then show ?thesis
    by (simp add: Accounts_def foldl_snoc sort_Slice_eq_sort)
qed

text \<open>
  Loading the registry: a key that does not parse leaves the registry as it was and is
  logged with its error; a key that parses is stored under its address.
\<close>

lemma loadTestAccounts_snoc:
  "loadTestAccounts HexToPrivKey PubkeyToAddress (testKeys @ [testKey]) =
     (case loadTestAccounts HexToPrivKey PubkeyToAddress testKeys of
        (accs, logged) \<Rightarrow>
          (case HexToPrivKey testKey of
             Inr key \<Rightarrow> (accs(PubkeyToAddress key \<mapsto> key), logged)
           | Inl err \<Rightarrow> (accs, logged @ [(testKey, err)])))"
  by (simp add: loadTestAccounts_def split: prod.splits)

lemma loadTestAccounts_skips_unparsable:
  assumes "HexToPrivKey testKey = Inl err"
  shows "fst (loadTestAccounts HexToPrivKey PubkeyToAddress (testKeys @ [testKey]))
           = fst (loadTestAccounts HexToPrivKey PubkeyToAddress testKeys)"
  using assms by (simp add: loadTestAccounts_snoc split: prod.splits)

lemma createGethTxFromCallArgs_Inr:
  "\<exists>tx sender. createGethTxFromCallArgs args = Inr (tx, sender)"
  by (simp add: createGethTxFromCallArgs_def)

subsection \<open>Gas price\<close>

text \<open>
  Claim C1, as stated: the price \<^verbatim>\<open>eth_gasPrice\<close> reports is the constant the call builder
  substitutes for an absent \<^verbatim>\<open>GasPrice\<close>. It fails: with no gas price in the arguments
  the builder puts 20000000000 in the transaction, and \<open>GasPrice\<close> returns something
  else.
\<close>

theorem GasPrice_flat_counterexample:
  "ca_GasPrice no_CallArgs = None
   \<and> createGethTxFromCallArgs no_CallArgs =
       Inr (NewTransaction 0 zero_address 0 10000000 20000000000 [], zero_address)
   \<and> GasPrice sample_api \<noteq> tx_gasPrice (NewTransaction 0 zero_address 0 10000000 20000000000 [])"
  by (simp add: no_CallArgs_def createGethTxFromCallArgs_def GasPrice_def NewTransaction_def
      DefaultGasPrice_def DefaultRPCGasLimit_def)

text \<open>
  Claim C1, amended: for every registry and backend \<^verbatim>\<open>eth_gasPrice\<close> reports the fixed
  price 0; the call builder substitutes the fixed constant \<open>DefaultGasPrice\<close>, which is
  20000000000, for an absent \<^verbatim>\<open>GasPrice\<close>.
\<close>

theorem GasPrice_zero_default_price_constant:
  "GasPrice api = 0
   \<and> (ca_GasPrice args = None \<longrightarrow>
        (\<exists>tx sender. createGethTxFromCallArgs args = Inr (tx, sender)
           \<and> tx_gasPrice tx = DefaultGasPrice))
   \<and> DefaultGasPrice = 20000000000"
  by (simp add: GasPrice_def createGethTxFromCallArgs_def NewTransaction_def DefaultGasPrice_def)

theorem GasPrice_zero_default_price_constant_witness:
  "GasPrice sample_api = 0
   \<and> (\<exists>tx sender. createGethTxFromCallArgs no_CallArgs = Inr (tx, sender)
           \<and> tx_gasPrice tx = 20000000000)"
  using GasPrice_zero_default_price_constant [of sample_api no_CallArgs]
  by (simp add: no_CallArgs_def)

subsection \<open>Transaction and receipt by hash\<close>

text \<open>
  Claim C2, as stated: a backend failure of \<^verbatim>\<open>GetTransaction\<close> other than "transaction
  not found" is returned as an error by \<^verbatim>\<open>eth_getTransactionByHash\<close> and
  \<^verbatim>\<open>eth_getTransactionReceipt\<close>. It fails: the sample backend answers the lookup of
  \<open>hashB\<close> with the error "store closed", and both operations return null and no error.
\<close>

theorem GetTransaction_other_failure_counterexample:
  "backend_GetTransaction (backend sample_api) hashB = Inl (ErrorString ''store closed'')
   \<and> fst (GetTransactionByHash (id :: nat \<Rightarrow> nat) sample_api hashB) = Inr None
   \<and> fst (GetTransactionReceipt (id :: nat \<Rightarrow> nat) sample_api hashB) = Inr None"
  using hash_distinct
  by (auto simp add: GetTransactionByHash_def GetTransactionReceipt_def sample_api_def
      sample_backend_def)

text \<open>
  Claim C2, amended: for \<^verbatim>\<open>eth_getTransactionByHash\<close> and \<^verbatim>\<open>eth_getTransactionReceipt\<close>,
  whenever the backend's \<^verbatim>\<open>GetTransaction\<close> fails, with "transaction not found" or with
  any other error, the result is null with no error, after that single backend call.
\<close>

theorem GetTransaction_any_failure_null:
  assumes "backend_GetTransaction (backend api) h = Inl err"
  shows "GetTransactionByHash txToRpcResp api h = (Inr None, [GetTransactionCall h])
         \<and> GetTransactionReceipt txToReceiptRpcResp api h = (Inr None, [GetTransactionCall h])"
  using assms by (simp add: GetTransactionByHash_def GetTransactionReceipt_def)

theorem GetTransaction_any_failure_null_witness:
  "GetTransactionByHash (id :: nat \<Rightarrow> nat) sample_api hashB
     = (Inr None, [GetTransactionCall hashB])
   \<and> GetTransactionReceipt (id :: nat \<Rightarrow> nat) sample_api hashB
     = (Inr None, [GetTransactionCall hashB])"
proof -
  have h: "backend_GetTransaction (backend sample_api) hashB = Inl (ErrorString ''store closed'')"
    using hash_distinct by (auto simp add: sample_api_def sample_backend_def)
  show ?thesis by (rule GetTransaction_any_failure_null [OF h])
qed

subsection \<open>Errors surfaced and errors dropped\<close>




subsection \<open>Read-only execution by status\<close>

text \<open>
  Claim C4: for \<^verbatim>\<open>eth_call\<close> and \<^verbatim>\<open>eth_estimateGas\<close> the builder always yields a
  transaction and a sender, the backend is called with them, and then: when the status
  code the backend reports is classified as non-failure, \<^verbatim>\<open>eth_call\<close> returns exactly the
  backend's return data and \<^verbatim>\<open>eth_estimateGas\<close> exactly the backend's gas amount, with no
  error; when it is classified as failure, both return the error made from the status
  code and the return data, and no success value.
\<close>

theorem Call_EstimateGas_by_status:
  "\<exists>tx sender. createGethTxFromCallArgs args = Inr (tx, sender)
     \<and> (\<forall>statusCode retData. backend_Call (backend api) tx sender = (statusCode, retData) \<longrightarrow>
           (\<not> StatusIsFailure statusCode \<longrightarrow>
              Call StatusIsFailure toCallErr api args blockNr = (Inr retData, [CallCall tx sender]))
         \<and> (StatusIsFailure statusCode \<longrightarrow>
              Call StatusIsFailure toCallErr api args blockNr =
                (Inl (toCallErr statusCode retData), [CallCall tx sender])))
     \<and> (\<forall>statusCode retData gas.
           backend_EstimateGas (backend api) tx sender = (statusCode, retData, gas) \<longrightarrow>
           (\<not> StatusIsFailure statusCode \<longrightarrow>
              EstimateGas StatusIsFailure toCallErr api args = (Inr gas, [EstimateGasCall tx sender]))
         \<and> (StatusIsFailure statusCode \<longrightarrow>
              EstimateGas StatusIsFailure toCallErr api args =
                (Inl (toCallErr statusCode retData), [EstimateGasCall tx sender])))"
proof -
  obtain tx sender where b: "createGethTxFromCallArgs args = Inr (tx, sender)"
    using createGethTxFromCallArgs_Inr by blast
  have "\<forall>statusCode retData. backend_Call (backend api) tx sender = (statusCode, retData) \<longrightarrow>
           (\<not> StatusIsFailure statusCode \<longrightarrow>
              Call StatusIsFailure toCallErr api args blockNr = (Inr retData, [CallCall tx sender]))
         \<and> (StatusIsFailure statusCode \<longrightarrow>
              Call StatusIsFailure toCallErr api args blockNr =
                (Inl (toCallErr statusCode retData), [CallCall tx sender]))"
    by (simp add: Call_def b)
  moreover have "\<forall>statusCode retData gas.
           backend_EstimateGas (backend api) tx sender = (statusCode, retData, gas) \<longrightarrow>
           (\<not> StatusIsFailure statusCode \<longrightarrow>
              EstimateGas StatusIsFailure toCallErr api args = (Inr gas, [EstimateGasCall tx sender]))
         \<and> (StatusIsFailure statusCode \<longrightarrow>
              EstimateGas StatusIsFailure toCallErr api args =
                (Inl (toCallErr statusCode retData), [EstimateGasCall tx sender]))"
    by (simp add: EstimateGas_def b)
  ultimately show ?thesis using b by blast
qed

theorem Call_EstimateGas_by_status_witness:
  "fst (Call sample_StatusIsFailure sample_toCallErr sample_api no_CallArgs 0) = Inr [1, 2]
   \<and> fst (Call sample_StatusIsFailure sample_toCallErr sample_api data_CallArgs 0)
       = Inl (ErrorString ''revert'')
   \<and> fst (EstimateGas sample_StatusIsFailure sample_toCallErr sample_api no_CallArgs) = Inr 21000
   \<and> fst (EstimateGas sample_StatusIsFailure sample_toCallErr sample_api data_CallArgs)
       = Inl (ErrorString ''revert'')"
  using Call_EstimateGas_by_status [of no_CallArgs sample_api sample_StatusIsFailure sample_toCallErr 0]
    Call_EstimateGas_by_status [of data_CallArgs sample_api sample_StatusIsFailure sample_toCallErr 0]
  by (simp add: createGethTxFromCallArgs_def no_CallArgs_def data_CallArgs_def sample_api_def
      sample_backend_def sample_StatusIsFailure_def sample_toCallErr_def NewTransaction_def)

text \<open>
  Claim C5: when \<^verbatim>\<open>Gas\<close>, \<^verbatim>\<open>GasPrice\<close> and \<^verbatim>\<open>Value\<close> are all absent from the arguments,
  \<^verbatim>\<open>eth_estimateGas\<close> makes one backend call, \<^verbatim>\<open>EstimateGas\<close>, with a transaction whose gas
  limit is \<open>DefaultRPCGasLimit\<close>, whose gas price is \<open>DefaultGasPrice\<close> and whose value is
  zero.
\<close>

theorem EstimateGas_defaults:
  assumes "ca_Gas args = None" and "ca_GasPrice args = None" and "ca_Value args = None"
  shows "\<exists>tx sender.
           snd (EstimateGas StatusIsFailure toCallErr api args) = [EstimateGasCall tx sender]
           \<and> tx_gas tx = DefaultRPCGasLimit \<and> tx_gasPrice tx = DefaultGasPrice
           \<and> tx_value tx = 0"
  using assms
  by (simp add: EstimateGas_def createGethTxFromCallArgs_def NewTransaction_def split: prod.splits)

theorem EstimateGas_defaults_witness:
  "\<exists>tx sender. snd (EstimateGas sample_StatusIsFailure sample_toCallErr sample_api data_CallArgs)
        = [EstimateGasCall tx sender]
           \<and> tx_gas tx = 10000000 \<and> tx_gasPrice tx = 20000000000 \<and> tx_value tx = 0"
proof -
  have h: "ca_Gas data_CallArgs = None" "ca_GasPrice data_CallArgs = None"
    "ca_Value data_CallArgs = None"
    by (simp_all add: data_CallArgs_def no_CallArgs_def)
  show ?thesis
    using EstimateGas_defaults [OF h, of sample_StatusIsFailure sample_toCallErr sample_api]
    by (simp add: DefaultRPCGasLimit_def DefaultGasPrice_def)
qed

subsection \<open>Sending from an unknown account\<close>

text \<open>
  Claim C6: when the sender of the arguments is not in the signer registry,
  \<^verbatim>\<open>eth_sendTransaction\<close> returns the error whose message is "unknown account: " followed
  by the hex form of the sender, and makes no backend call at all.
\<close>

theorem SendTransaction_unknown_account:
  assumes "accounts api (sa_From args) = None"
  shows "SendTransaction Hex createGethTxFromSendTxArgs SignTx EncodeTx TxHash api args =
           (Inl (ErrorString (''unknown account: '' @ Hex (sa_From args))), [])"
  using assms by (simp add: SendTransaction_def)

theorem SendTransaction_unknown_account_witness:
  "SendTransaction sample_Hex sample_build sample_sign sample_encode sample_hash sample_api
       (sample_SendTxArgs zero_address) =
     (Inl (ErrorString ''unknown account: 0x0000000000000000000000000000000000000000''), [])"
proof -
  have h: "accounts sample_api (sa_From (sample_SendTxArgs zero_address)) = None"
    using acct_distinct by (auto simp add: sample_api_def sample_SendTxArgs_def)
  have x: "sample_Hex zero_address = ''0x0000000000000000000000000000000000000000''"
    by (simp add: sample_Hex_def zero_address_def AddressLength_def eval_nat_numeral)
  show ?thesis
    using SendTransaction_unknown_account [OF h, of sample_Hex sample_build sample_sign
        sample_encode sample_hash] x
    by (simp add: sample_SendTxArgs_def)
qed

subsection \<open>Block resolution\<close>

text \<open>
  Claim C7: for every block number less than or equal to zero, the symbolic markers
  latest, pending and earliest among them, \<^verbatim>\<open>eth_getBlockByNumber\<close> asks the backend for
  its current head and for no height, answers as it does for latest, and returns the
  head; for every strictly positive block number it looks up exactly that height and
  returns the block found there. In both cases, and with or without full transactions:
  the block found is returned, with the transactions of its height when they are asked
  for; a block that is not found gives null; every other failure, of the block lookup or
  of the transaction list, is returned.
\<close>

theorem GetBlockByNumber_resolution:
  "(sint blockNum \<le> 0 \<longrightarrow>
       getBlockByNum api blockNum = (backend_CurrentBlock (backend api), [CurrentBlockCall])
     \<and> GetBlockByNumber blockToRpcResp api blockNum fullTx
         = GetBlockByNumber blockToRpcResp api LatestBlockNumber fullTx
     \<and> (\<forall>head. backend_CurrentBlock (backend api) = Inr head \<longrightarrow>
          GetBlockByNumber blockToRpcResp api blockNum False
            = (Inr (Some (blockToRpcResp head None)), [CurrentBlockCall])
        \<and> (\<forall>txs. backend_GetTxListByHeight (backend api) (ucast (Number head)) = Inr txs \<longrightarrow>
              GetBlockByNumber blockToRpcResp api blockNum True
                = (Inr (Some (blockToRpcResp head (Some txs))),
                   [CurrentBlockCall, GetTxListByHeightCall (ucast (Number head))]))
        \<and> (\<forall>err. backend_GetTxListByHeight (backend api) (ucast (Number head)) = Inl err \<longrightarrow>
              GetBlockByNumber blockToRpcResp api blockNum True
                = (Inl err, [CurrentBlockCall, GetTxListByHeightCall (ucast (Number head))])))
     \<and> (backend_CurrentBlock (backend api) = Inl ErrBlockNotFound \<longrightarrow>
          GetBlockByNumber blockToRpcResp api blockNum fullTx = (Inr None, [CurrentBlockCall]))
     \<and> (\<forall>err. backend_CurrentBlock (backend api) = Inl err \<and> err \<noteq> ErrBlockNotFound \<longrightarrow>
          GetBlockByNumber blockToRpcResp api blockNum fullTx = (Inl err, [CurrentBlockCall])))
   \<and> (0 < sint blockNum \<longrightarrow>
       getBlockByNum api blockNum
         = (backend_BlockByNumber (backend api) blockNum, [BlockByNumberCall blockNum])
     \<and> (\<forall>block. backend_BlockByNumber (backend api) blockNum = Inr block \<longrightarrow>
          GetBlockByNumber blockToRpcResp api blockNum False
            = (Inr (Some (blockToRpcResp block None)), [BlockByNumberCall blockNum])
        \<and> (\<forall>txs. backend_GetTxListByHeight (backend api) (ucast (Number block)) = Inr txs \<longrightarrow>
              GetBlockByNumber blockToRpcResp api blockNum True
                = (Inr (Some (blockToRpcResp block (Some txs))),
                   [BlockByNumberCall blockNum, GetTxListByHeightCall (ucast (Number block))]))
        \<and> (\<forall>err. backend_GetTxListByHeight (backend api) (ucast (Number block)) = Inl err \<longrightarrow>
              GetBlockByNumber blockToRpcResp api blockNum True
                = (Inl err,
                   [BlockByNumberCall blockNum, GetTxListByHeightCall (ucast (Number block))])))
     \<and> (backend_BlockByNumber (backend api) blockNum = Inl ErrBlockNotFound \<longrightarrow>
          GetBlockByNumber blockToRpcResp api blockNum fullTx
            = (Inr None, [BlockByNumberCall blockNum]))
     \<and> (\<forall>err. backend_BlockByNumber (backend api) blockNum = Inl err \<and> err \<noteq> ErrBlockNotFound \<longrightarrow>
          GetBlockByNumber blockToRpcResp api blockNum fullTx
            = (Inl err, [BlockByNumberCall blockNum])))
   \<and> sint LatestBlockNumber \<le> 0 \<and> sint PendingBlockNumber \<le> 0 \<and> sint EarliestBlockNumber \<le> 0"
  by (simp add: getBlockByNum_def GetBlockByNumber_def LatestBlockNumber_def
      PendingBlockNumber_def EarliestBlockNumber_def)

theorem GetBlockByNumber_resolution_witness:
  "GetBlockByNumber (\<lambda>b txs. (Number b, txs)) sample_api (- 5) False
     = (Inr (Some (7, None)), [CurrentBlockCall])
   \<and> GetBlockByNumber (\<lambda>b txs. (Number b, txs)) sample_api PendingBlockNumber True
     = GetBlockByNumber (\<lambda>b txs. (Number b, txs)) sample_api LatestBlockNumber True
   \<and> GetBlockByNumber (\<lambda>b txs. (Number b, txs)) sample_api 7 False
     = (Inr (Some (7, None)), [BlockByNumberCall 7])
   \<and> GetBlockByNumber (\<lambda>b txs. (Number b, txs)) sample_api PendingBlockNumber True
     = (Inr (Some (7, Some [41, 42])), [CurrentBlockCall, GetTxListByHeightCall 7])
   \<and> GetBlockByNumber (\<lambda>b txs. (Number b, txs)) sample_api 7 True
     = (Inr (Some (7, Some [41, 42])), [BlockByNumberCall 7, GetTxListByHeightCall 7])
   \<and> GetBlockByNumber (\<lambda>b txs. (Number b, txs)) sample_api 8 True
     = (Inl (ErrorString ''no such height''), [BlockByNumberCall 8, GetTxListByHeightCall 8])
   \<and> GetBlockByNumber (\<lambda>b txs. (Number b, txs)) sample_api 9 True
     = (Inl (ErrorString ''store closed''), [BlockByNumberCall 9])
   \<and> GetBlockByNumber (\<lambda>b txs. (Number b, txs)) sample_api 10 True
     = (Inr None, [BlockByNumberCall 10])"
proof -
  let ?f = "\<lambda>(b :: Block) (txs :: nat list option). (Number b, txs)"
  have neg: "sint (- 5 :: 64 word) \<le> 0" "sint PendingBlockNumber \<le> 0"
    and pos: "0 < sint (7 :: 64 word)" "0 < sint (8 :: 64 word)" "0 < sint (9 :: 64 word)"
      "0 < sint (10 :: 64 word)"
    by (simp_all add: PendingBlockNumber_def)
  have head: "backend_CurrentBlock (backend sample_api) = Inr block7"
    and at7: "backend_BlockByNumber (backend sample_api) 7 = Inr block7"
    and at8: "backend_BlockByNumber (backend sample_api) 8 = Inr block8"
    and at9: "backend_BlockByNumber (backend sample_api) 9 = Inl (ErrorString ''store closed'')"
    and at10: "backend_BlockByNumber (backend sample_api) 10 = Inl ErrBlockNotFound"
    and txs7: "backend_GetTxListByHeight (backend sample_api) (ucast (Number block7))
        = Inr [41, 42]"
    and txs8: "backend_GetTxListByHeight (backend sample_api) (ucast (Number block8))
        = Inl (ErrorString ''no such height'')"
    by (simp_all add: sample_api_def sample_backend_def block7_def block8_def)
  have n7: "(ucast (Number block7) :: 32 word) = 7" and n8: "(ucast (Number block8) :: 32 word) = 8"
    by (simp_all add: block7_def block8_def)
  have "GetBlockByNumber ?f sample_api (- 5) False
      = (Inr (Some (?f block7 None)), [CurrentBlockCall])"
    using GetBlockByNumber_resolution [of "- 5" sample_api ?f False] neg head by blast
  moreover have "GetBlockByNumber ?f sample_api PendingBlockNumber True
      = GetBlockByNumber ?f sample_api LatestBlockNumber True"
    using GetBlockByNumber_resolution [of PendingBlockNumber sample_api ?f True] by blast
  moreover have "GetBlockByNumber ?f sample_api 7 False
      = (Inr (Some (?f block7 None)), [BlockByNumberCall 7])"
    using GetBlockByNumber_resolution [of 7 sample_api ?f False] pos at7 by blast
  moreover have "GetBlockByNumber ?f sample_api PendingBlockNumber True
      = (Inr (Some (?f block7 (Some [41, 42]))),
         [CurrentBlockCall, GetTxListByHeightCall (ucast (Number block7))])"
    using GetBlockByNumber_resolution [of PendingBlockNumber sample_api ?f True] neg head txs7
    by blast
  moreover have "GetBlockByNumber ?f sample_api 7 True
      = (Inr (Some (?f block7 (Some [41, 42]))),
         [BlockByNumberCall 7, GetTxListByHeightCall (ucast (Number block7))])"
    using GetBlockByNumber_resolution [of 7 sample_api ?f True] pos at7 txs7 by blast
  moreover have "GetBlockByNumber ?f sample_api 8 True
      = (Inl (ErrorString ''no such height''),
         [BlockByNumberCall 8, GetTxListByHeightCall (ucast (Number block8))])"
    using GetBlockByNumber_resolution [of 8 sample_api ?f True] pos at8 txs8 by blast
  moreover have "GetBlockByNumber ?f sample_api 9 True
      = (Inl (ErrorString ''store closed''), [BlockByNumberCall 9])"
    using GetBlockByNumber_resolution [of 9 sample_api ?f True] pos at9 by blast
  moreover have "GetBlockByNumber ?f sample_api 10 True = (Inr None, [BlockByNumberCall 10])"
    using GetBlockByNumber_resolution [of 10 sample_api ?f True] pos at10 by blast
  ultimately show ?thesis by (simp add: n7 n8) (simp add: block7_def)
qed

subsection \<open>Transaction by index\<close>

text \<open>
  Claim C8: for every block and every index greater than or equal to the number of
  transactions of the block, the lookup by index returns null with no error and makes no
  backend call; so \<^verbatim>\<open>eth_getTransactionByBlockNumberAndIndex\<close> and the variant by block
  hash, once the block is found, return null with no error and make no backend call
  after the block lookup, and none that fetches a transaction.
\<close>

theorem getTxByIdx_out_of_bounds:
  assumes "length (Transactions block) \<le> unat idx"
  shows "getTxByIdx txToRpcResp api block idx = (Inr None, [])
    \<and> (\<forall>calls. getBlockByNum api blockNum = (Inr block, calls) \<longrightarrow>
          GetTransactionByBlockNumberAndIndex txToRpcResp api blockNum idx = (Inr None, calls)
          \<and> (\<forall>txHash. GetTransactionCall txHash \<notin> set calls))
    \<and> (backend_BlockByHash (backend api) h = Inr block \<longrightarrow>
          GetTransactionByBlockHashAndIndex txToRpcResp api h idx
            = (Inr None, [BlockByHashCall h]))"
  using assms
  by (auto simp add: getTxByIdx_def GetTransactionByBlockNumberAndIndex_def
      GetTransactionByBlockHashAndIndex_def getBlockByNum_def split: if_splits)

theorem getTxByIdx_out_of_bounds_witness:
  "getTxByIdx (id :: nat \<Rightarrow> nat) sample_api block7 2 = (Inr None, [])
   \<and> GetTransactionByBlockNumberAndIndex (id :: nat \<Rightarrow> nat) sample_api 7 2
       = (Inr None, [BlockByNumberCall 7])
   \<and> GetTransactionByBlockHashAndIndex (id :: nat \<Rightarrow> nat) sample_api hashA 2
       = (Inr None, [BlockByHashCall hashA])"
proof -
  have h: "length (Transactions block7) \<le> unat (2 :: 64 word)"
    by (simp add: block7_def)
  have g: "getBlockByNum sample_api 7 = (Inr block7, [BlockByNumberCall 7])"
    by (simp add: getBlockByNum_def sample_api_def sample_backend_def)
  have b: "backend_BlockByHash (backend sample_api) hashA = Inr block7"
    by (simp add: sample_api_def sample_backend_def)
  show ?thesis
    using getTxByIdx_out_of_bounds [OF h, of "id :: nat \<Rightarrow> nat" sample_api 7 hashA] g b
    by simp
qed

subsection \<open>Account listing\<close>

text \<open>
  Claim C9: whatever the registry holds (its keys are 20-byte addresses),
  \<^verbatim>\<open>eth_accounts\<close> returns the addresses of the registry, each once, in ascending
  lexicographic order of their bytes, first byte first; and two invocations on the same
  registry return the same list, whatever the orders in which the map was iterated.
\<close>

theorem Accounts_sorted_stable:
  assumes "range_order (accounts api) iter1" and "range_order (accounts api) iter2"
    and "\<forall>a \<in> dom (accounts api). length a = AddressLength"
  shows "\<exists>addrs. Accounts api iter1 = Inr addrs \<and> Accounts api iter2 = Inr addrs
           \<and> sorted_wrt (<) addrs \<and> set addrs = dom (accounts api)"
proof -
  have m: "mset iter1 = mset iter2"
    using assms(1,2) by (simp add: range_order_def set_eq_iff_mset_eq_distinct [symmetric])
  have s: "sort iter1 = sort iter2"
    by (rule properties_for_sort) (simp_all add: m)
  have a1: "Accounts api iter1 = Inr (sort iter1)"
    by (rule Accounts_eq_sort) (use assms(1,3) in \<open>simp add: range_order_def\<close>)
  have a2: "Accounts api iter2 = Inr (sort iter1)"
    unfolding s by (rule Accounts_eq_sort) (use assms(2,3) in \<open>simp add: range_order_def\<close>)
  have "sorted_wrt (<) (sort iter1)"
    using assms(1) by (simp add: strict_sorted_iff range_order_def)
  moreover have "set (sort iter1) = dom (accounts api)"
    using assms(1) by (simp add: range_order_def)
  ultimately show ?thesis using a1 a2 by blast
qed

theorem Accounts_sorted_stable_witness:
  "\<exists>addrs. Accounts sample_api [acct1, acct2] = Inr addrs
     \<and> Accounts sample_api [acct2, acct1] = Inr addrs
     \<and> sorted_wrt (<) addrs \<and> set addrs = {acct1, acct2}"
proof -
  have d: "dom (accounts sample_api) = {acct1, acct2}"
    by (auto simp add: sample_api_def)
  have r1: "range_order (accounts sample_api) [acct1, acct2]"
    and r2: "range_order (accounts sample_api) [acct2, acct1]"
    using acct_distinct by (auto simp add: range_order_def d)
  have l: "\<forall>a \<in> dom (accounts sample_api). length a = AddressLength"
    by (simp add: d acct_length)
  show ?thesis
    using Accounts_sorted_stable [OF r1 r2 l] by (simp add: d)
qed

subsection \<open>Balance of an unknown account\<close>

text \<open>
  Claim C10: when the backend's balance query fails with the account-not-found error,
  \<^verbatim>\<open>eth_getBalance\<close> returns the balance zero with no error; every other failure of the
  balance query is returned as an error.
\<close>

theorem GetBalance_account_not_found:
  "(backend_GetBalance (backend api) addr LatestBlockNumber = Inl ErrAccNotFound
      \<longrightarrow> fst (GetBalance api addr blockNum) = Inr 0)
   \<and> (\<forall>err. backend_GetBalance (backend api) addr LatestBlockNumber = Inl err
              \<and> err \<noteq> ErrAccNotFound
      \<longrightarrow> fst (GetBalance api addr blockNum) = Inl err)"
  by (simp add: GetBalance_def)

theorem GetBalance_account_not_found_witness:
  "fst (GetBalance sample_api acct2 7) = Inr 0
   \<and> fst (GetBalance sample_api zero_address 7) = Inl (ErrorString ''store closed'')"
  using GetBalance_account_not_found [of sample_api acct2 7]
    GetBalance_account_not_found [of sample_api zero_address 7]
  by (simp add: sample_api_def sample_backend_def acct_distinct)

end
